theory Spec2Isabelle
  imports Main
begin

section \<open>Exceptions\<close>

text \<open>
  The Python exceptions that the modelled code raises, catches or lets through.
  \<open>PytubeError\<close> stands for \<open>pytube.exceptions.PytubeError\<close> and all its subclasses
  (\<open>VideoUnavailable\<close>, \<open>VideoPrivate\<close>, \<open>VideoRegionBlocked\<close>, \<open>RegexMatchError\<close>, ...);
  the string names the subclass. \<open>BadRequest\<close> is \<open>telegram.error.BadRequest\<close>.
  \<open>TransportError\<close> stands for every other failure of the network layer.
  A computation that may raise returns \<open>exn + 'a\<close>, \<open>Inl\<close> being the raised exception.
\<close>

datatype exn =
    IndexError
  | AttributeError
  | PytubeError string
  | BadRequest string
  | TransportError string

fun is_PytubeError :: "exn \<Rightarrow> bool" where
  "is_PytubeError (PytubeError k) = True"
| "is_PytubeError e = False"

fun is_BadRequest :: "exn \<Rightarrow> bool" where
  "is_BadRequest (BadRequest k) = True"
| "is_BadRequest e = False"

section \<open>The values of the pytube library\<close>

text \<open>
  A \<open>pytube.Stream\<close>, with the attributes that \<open>src/app/parsers/youtube.py\<close> reads or
  filters on. \<open>resolution\<close> is the number in pytube's resolution string (\<open>720\<close> for
  \<open>"720p"\<close>), \<open>None\<close> when the stream has no resolution; \<open>stype\<close> is the attribute
  \<open>type\<close>; \<open>filesize\<close> is a Python \<open>int\<close>. The attributes of a stream are taken
  as values the library has already obtained.
\<close>

record stream =
  url :: string
  filesize :: int
  resolution :: "nat option"
  stype :: string
  is_progressive :: bool
  subtype :: string
  mime_type :: string

text \<open>
  A \<open>pytube.YouTube\<close> object. Its attributes are properties that fetch from the provider
  when they are read, so each one either gives a value or raises.
\<close>

record youtube =
  streams :: "exn + stream list"
  author :: "exn + string"
  title :: "exn + string"
  thumbnail_url :: "exn + string"

text \<open>
  \<open>StreamQuery.filter(type="video", progressive=True, file_extension="mp4")\<close>
  (youtube.py, line 56): pytube keeps the streams that pass every given test;
  \<open>file_extension\<close> is compared with the stream's \<open>subtype\<close>.
\<close>

definition filter_streams :: "stream list \<Rightarrow> stream list" where
  "filter_streams fmt_streams =
     filter (\<lambda>s. stype s = ''video'' \<and> is_progressive s \<and> subtype s = ''mp4'') fmt_streams"

text \<open>
  \<open>StreamQuery.order_by("resolution")\<close> (line 57): pytube drops the streams whose
  attribute is \<open>None\<close> and sorts the others on it with Python's \<open>sorted\<close>, which is
  ascending and stable.
\<close>

definition resolution_key :: "stream \<Rightarrow> nat" where
  "resolution_key s = (case resolution s of None \<Rightarrow> 0 | Some r \<Rightarrow> r)"

definition order_by_resolution :: "stream list \<Rightarrow> stream list" where
  "order_by_resolution fmt_streams =
     sort_key resolution_key (filter (\<lambda>s. resolution s \<noteq> None) fmt_streams)"

text \<open>
  \<open>StreamQuery.get_highest_resolution()\<close> (line 60): pytube returns
  \<open>self.filter(progressive=True).order_by("resolution").last()\<close>, and \<open>last()\<close> is
  \<open>None\<close> on an empty query.
\<close>

definition get_highest_resolution :: "stream list \<Rightarrow> stream option" where
  "get_highest_resolution fmt_streams =
     (case order_by_resolution (filter is_progressive fmt_streams) of
        [] \<Rightarrow> None
      | s # ss \<Rightarrow> Some (last (s # ss)))"

section \<open>The YouTube parser (src/app/parsers/youtube.py)\<close>

datatype parser_type = YOUTUBE

text \<open>
  The \<open>Video\<close> value that \<open>_parse\<close> builds (lines 74 to 83), with the further fields
  that \<open>src/main.py\<close> reads. \<open>max_quality_url\<close> and \<open>file_input\<close> are optional.
\<close>

record video =
  author :: string
  caption :: string
  thumbnail_url :: string
  vtype :: parser_type
  url :: string
  original_url :: string
  max_quality_url :: "string option"
  mime_type :: string
  file_input :: "string option"

text \<open>
  A regular-expression match: the matched text and the named groups that took part.
  \<open>match.group(name)\<close> raises \<open>IndexError\<close> for a name that is not a group.
\<close>

record py_match =
  matched :: string
  groupdict :: "(string \<times> string) list"

definition group :: "py_match \<Rightarrow> string \<Rightarrow> exn + string" where
  "group m name =
     (case map_of (groupdict m) name of None \<Rightarrow> Inl IndexError | Some g \<Rightarrow> Inr g)"

text \<open>
  The loop of lines 62 to 71. Its state is the pair \<open>(max_fs, stream)\<close>; the test is
  Python's chained comparison \<open>TG_FILE_LIMIT >= file_size > max_fs\<close>. The constant
  \<open>constants.TG_FILE_LIMIT\<close> is not in the source tree and is the parameter
  \<open>TG_FILE_LIMIT\<close>.
\<close>

fun stream_loop :: "int \<Rightarrow> stream list \<Rightarrow> int \<times> stream \<Rightarrow> int \<times> stream" where
  "stream_loop TG_FILE_LIMIT [] (max_fs, stream) = (max_fs, stream)"
| "stream_loop TG_FILE_LIMIT (st # sts) (max_fs, stream) =
     (let file_size = filesize st in
      if TG_FILE_LIMIT \<ge> file_size \<and> file_size > max_fs
      then stream_loop TG_FILE_LIMIT sts (file_size, st)
      else stream_loop TG_FILE_LIMIT sts (max_fs, stream))"

text \<open>
  Lines 54 to 71 of \<open>_parse\<close>: the candidate streams in the order the loop visits them,
  the stream of highest resolution, and the stream chosen for delivery. The result is
  the pair \<open>(max_quality_url, stream)\<close>. When \<open>get_highest_resolution\<close> gives \<open>None\<close>,
  reading \<open>stream.url\<close> on line 61 raises \<open>AttributeError\<close>.
\<close>

definition candidates :: "stream list \<Rightarrow> stream list" where
  "candidates fmt_streams = order_by_resolution (filter_streams fmt_streams)"

definition select_stream :: "int \<Rightarrow> stream list \<Rightarrow> exn + (string \<times> stream)" where
  "select_stream TG_FILE_LIMIT fmt_streams =
     (case get_highest_resolution fmt_streams of
        None \<Rightarrow> Inl AttributeError
      | Some best \<Rightarrow>
          Inr (stream.url best,
               snd (stream_loop TG_FILE_LIMIT (candidates fmt_streams) (0, best))))"

text \<open>
  The construction of the \<open>Video\<close> inside \<open>try\<close> (lines 73 to 91). Python evaluates
  the keyword arguments in the order written; a \<open>PytubeError\<close> raised by one of them is
  caught and gives the empty list, any other exception goes on to the caller.
\<close>

definition except_PytubeError :: "exn \<Rightarrow> exn + video list" where
  "except_PytubeError err = (if is_PytubeError err then Inr [] else Inl err)"

definition build_video ::
  "youtube \<Rightarrow> string \<Rightarrow> string \<Rightarrow> stream \<Rightarrow> exn + video list" where
  "build_video yt original_url' max_quality_url' stream =
     (case youtube.author yt of
        Inl err \<Rightarrow> except_PytubeError err
      | Inr author' \<Rightarrow>
     (case title yt of
        Inl err \<Rightarrow> except_PytubeError err
      | Inr title' \<Rightarrow>
     (case youtube.thumbnail_url yt of
        Inl err \<Rightarrow> except_PytubeError err
      | Inr thumbnail_url' \<Rightarrow>
          Inr [\<lparr> video.author = author',
                 caption = title',
                 video.thumbnail_url = thumbnail_url',
                 vtype = YOUTUBE,
                 video.url = stream.url stream,
                 original_url = original_url',
                 max_quality_url = Some max_quality_url',
                 video.mime_type = stream.mime_type stream,
                 file_input = None \<rparr>])))"

text \<open>
  \<open>Parser._parse\<close> (lines 40 to 91). \<open>YouTube\<close> is the constructor \<open>pytube.YouTube\<close>,
  a parameter: it gives the object for a URL or raises. The \<open>session\<close> argument is not
  used by the source and is left out. The only exception caught before the \<open>Video\<close> is
  built is the \<open>IndexError\<close> of \<open>match.group('id')\<close>.
\<close>

definition parse ::
  "(string \<Rightarrow> exn + youtube) \<Rightarrow> int \<Rightarrow> py_match \<Rightarrow> exn + video list" where
  "parse YouTube TG_FILE_LIMIT match =
     (case group match ''id'' of
        Inl err \<Rightarrow> (if err = IndexError then Inr [] else Inl err)
      | Inr yt_id \<Rightarrow>
          (let original_url' = ''https://youtube.com/watch?v='' @ yt_id in
           case YouTube original_url' of
             Inl err \<Rightarrow> Inl err
           | Inr yt \<Rightarrow>
          (case streams yt of
             Inl err \<Rightarrow> Inl err
           | Inr fmt_streams \<Rightarrow>
          (case select_stream TG_FILE_LIMIT fmt_streams of
             Inl err \<Rightarrow> Inl err
           | Inr (max_quality_url', stream) \<Rightarrow>
               build_video yt original_url' max_quality_url' stream))))"

section \<open>Delivery and history (src/main.py)\<close>

text \<open>
  The dict of a Telegram video (\<open>res.video.to_dict()\<close>, and what the cache holds).
  Only its truth value matters to the code: an empty dict is false.
\<close>

type_synonym tg_dict = "(string \<times> string) list"

text \<open>The \<open>video=\<close> argument of \<open>reply_video\<close>: \<open>tg_video or media.file_input or media.url\<close>.\<close>

datatype video_input = TgVideo tg_dict | FileInput string | VideoUrl string

datatype chat_type = PRIVATE | GROUP | SUPERGROUP | CHANNEL

record input_media =
  im_media :: string
  im_caption :: "string option"

text \<open>
  A \<open>MediaGroup\<close>; the fields \<open>caption\<close> and \<open>original_url\<close> of the source carry the
  prefix \<open>group_\<close> here.
\<close>

record media_group =
  input_medias :: "input_media list"
  group_caption :: "string option"
  group_original_url :: string

text \<open>
  What \<open>Parser.parse\<close> returns: a list of \<open>Media\<close>, each a \<open>Video\<close>, a \<open>MediaGroup\<close>
  or a value of another \<open>Media\<close> class (the two \<open>isinstance\<close> tests of \<open>link_parser\<close>
  both fail on it).
\<close>

datatype media = Video video | MediaGroup media_group | OtherMedia string

datatype entity_type = URL | TEXT_LINK | MENTION | HASHTAG | BOT_COMMAND | OTHER_ENTITY string

record message_entity =
  etype :: entity_type
  offset :: int
  elength :: int

record message =
  message_text :: string
  entities :: "message_entity list"

text \<open>The calls made to the collaborators, in the order they are made.\<close>

datatype call =
    ParseCall "string list"
  | ReplyVideo video_input string
  | ReplyText string
  | ReplyMediaGroup "input_media list"

text \<open>
  The collaborators of \<open>main.py\<close> that are not in the source tree, as parameters:
  the chat of the update, \<open>media.real_caption(ctx, "")\<close>, the two translated and
  formatted texts (lines 42 to 47, of the full-quality url; lines 75 to 82, of the
  caption, the original url and the url), the three replies of the Telegram message, each
  giving a result or raising, and \<open>Parser.parse\<close>. \<open>reply_video\<close> gives \<open>res.video\<close>
  turned into a dict, \<open>None\<close> when the message sent has no \<open>video\<close>.
\<close>

record env =
  chat :: chat_type
  real_caption :: "video \<Rightarrow> string"
  original_note :: "string \<Rightarrow> string"
  error_text :: "string \<Rightarrow> string \<Rightarrow> string \<Rightarrow> string"
  reply_video :: "video_input \<Rightarrow> string \<Rightarrow> exn + tg_dict option"
  reply_text :: "string \<Rightarrow> exn + unit"
  reply_media_group :: "input_media list \<Rightarrow> exn + unit"
  parse_links :: "string list \<Rightarrow> exn + media list"

text \<open>
  The mutable state behind \<open>ctx\<close>: the cache of delivered videos keyed by
  \<open>original_url\<close>, the videos offered in the last inline answer keyed by result id, the
  user's history, and the calls made so far. The values of \<open>temp_history\<close> are the dicts
  of \<open>Video.to_dict()\<close> (line 237): they carry the fields of the video, compare by value
  and are never empty, so they are \<open>video\<close> records here.
\<close>

record ctx =
  tg_video_cache :: "string \<rightharpoonup> tg_dict"
  temp_history :: "string \<rightharpoonup> video"
  history :: "video list"
  calls :: "call list"

subsection \<open>\<open>_process_video\<close> (lines 39 to 85)\<close>

definition extra_caption :: "env \<Rightarrow> video \<Rightarrow> string" where
  "extra_caption e media =
     (case max_quality_url media of
        None \<Rightarrow> []
      | Some mq \<Rightarrow> if mq \<noteq> [] \<and> mq \<noteq> video.url media then original_note e mq else [])"

text \<open>\<open>str.strip()\<close>, on the ASCII white space.\<close>

definition is_space :: "char \<Rightarrow> bool" where
  "is_space c = (c \<in> set [CHR '' '', CHR 0x09, CHR 0x0A, CHR 0x0B, CHR 0x0C, CHR 0x0D,
                            CHR 0x1C, CHR 0x1D, CHR 0x1E, CHR 0x1F])"

definition strip :: "string \<Rightarrow> string" where
  "strip s = rev (dropWhile is_space (rev (dropWhile is_space s)))"

definition media_caption :: "env \<Rightarrow> video \<Rightarrow> string" where
  "media_caption e media = strip (real_caption e media @ extra_caption e media)"

text \<open>
  Lines 52 to 57: the cached dict when there is one and it is true, else the file input
  when the media has one, else the url.
\<close>

definition video_argument :: "ctx \<Rightarrow> video \<Rightarrow> video_input" where
  "video_argument c media =
     (case tg_video_cache c (original_url media) of
        Some tg_video \<Rightarrow>
          if tg_video \<noteq> [] then TgVideo tg_video
          else (case file_input media of Some f \<Rightarrow> FileInput f | None \<Rightarrow> VideoUrl (video.url media))
      | None \<Rightarrow>
          (case file_input media of Some f \<Rightarrow> FileInput f | None \<Rightarrow> VideoUrl (video.url media)))"

text \<open>
  The \<open>try\<close> of lines 51 to 85. The width, height and duration handed to \<open>reply_video\<close>
  are passed through unchanged and are left out. On line 64, \<open>res.video.to_dict()\<close>
  raises \<open>AttributeError\<close> when \<open>res.video\<close> is \<open>None\<close>. Only \<open>BadRequest\<close> is caught;
  it is raised again after the reply with the link, which is sent in a private chat only
  and may raise itself.
\<close>

definition process_video :: "env \<Rightarrow> ctx \<Rightarrow> video \<Rightarrow> (exn + unit) \<times> ctx" where
  "process_video e c media =
     (let video_arg = video_argument c media;
          c1 = c\<lparr>calls := calls c @ [ReplyVideo video_arg (media_caption e media)]\<rparr>
      in case reply_video e video_arg (media_caption e media) of
           Inr (Some res_video) \<Rightarrow>
             (Inr (), c1\<lparr>tg_video_cache := (tg_video_cache c1)(original_url media \<mapsto> res_video)\<rparr>)
         | Inr None \<Rightarrow> (Inl AttributeError, c1)
         | Inl err \<Rightarrow>
             if is_BadRequest err then
               (if chat e = PRIVATE then
                  (let txt = error_text e (media_caption e media) (original_url media)
                               (video.url media);
                       c2 = c1\<lparr>calls := calls c1 @ [ReplyText txt]\<rparr>
                   in case reply_text e txt of
                        Inl err2 \<Rightarrow> (Inl err2, c2)
                      | Inr u \<Rightarrow> (Inl err, c2))
                else (Inl err, c1))
             else (Inl err, c1))"

subsection \<open>\<open>_process_media_group\<close> (lines 88 to 98)\<close>

definition process_media_group :: "env \<Rightarrow> ctx \<Rightarrow> media_group \<Rightarrow> (exn + unit) \<times> ctx" where
  "process_media_group e c media =
     (let i_medias = map (\<lambda>m. m\<lparr>im_caption := group_caption media\<rparr>) (input_medias media);
          c1 = c\<lparr>calls := calls c @ [ReplyMediaGroup i_medias]\<rparr>
      in case reply_media_group e i_medias of
           Inl err \<Rightarrow> (Inl err, c1)
         | Inr u \<Rightarrow> (Inr (), c1))"

subsection \<open>\<open>link_parser\<close> (lines 101 to 128)\<close>

text \<open>Python's \<open>s[i:j]\<close> on a string, for any two integers.\<close>

definition slice_index :: "nat \<Rightarrow> int \<Rightarrow> nat" where
  "slice_index n i = (if i < 0 then nat (max 0 (int n + i)) else min (nat i) n)"

definition py_slice :: "string \<Rightarrow> int \<Rightarrow> int \<Rightarrow> string" where
  "py_slice s i j =
     (let lo = slice_index (length s) i; hi = slice_index (length s) j
      in take (hi - lo) (drop lo s))"

text \<open>The list comprehension of lines 106 to 111, one entity after the other.\<close>

fun entity_links :: "string \<Rightarrow> message_entity list \<Rightarrow> string list" where
  "entity_links txt [] = []"
| "entity_links txt (entity # es) =
     (if etype entity = URL \<or> etype entity = TEXT_LINK
      then py_slice txt (offset entity) (offset entity + elength entity) # entity_links txt es
      else entity_links txt es)"

definition message_links :: "message option \<Rightarrow> string list" where
  "message_links m = (case m of None \<Rightarrow> [] | Some msg \<Rightarrow> entity_links (message_text msg) (entities msg))"

text \<open>The loop of lines 118 to 128: the first \<open>Video\<close> or \<open>MediaGroup\<close> ends it.\<close>

fun media_loop :: "env \<Rightarrow> ctx \<Rightarrow> media list \<Rightarrow> (exn + unit) \<times> ctx" where
  "media_loop e c [] = (Inr (), c)"
| "media_loop e c (Video v # medias) = process_video e c v"
| "media_loop e c (MediaGroup g # medias) = process_media_group e c g"
| "media_loop e c (OtherMedia x # medias) = media_loop e c medias"

definition link_parser :: "env \<Rightarrow> ctx \<Rightarrow> message option \<Rightarrow> (exn + unit) \<times> ctx" where
  "link_parser e c m =
     (let c1 = c\<lparr>calls := calls c @ [ParseCall (message_links m)]\<rparr>
      in case parse_links e (message_links m) of
           Inl err \<Rightarrow> (Inl err, c1)
         | Inr medias \<Rightarrow> media_loop e c1 medias)"

subsection \<open>\<open>chosen_inline_query\<close> (lines 170 to 180)\<close>

text \<open>
  \<open>history_enabled\<close> is \<open>ctx.settings.is_history_enabled(update)\<close> and \<open>result_id\<close> is
  \<open>update.chosen_inline_result.result_id\<close>. The \<open>pop\<close> with default \<open>None\<close> is followed
  by \<open>clear()\<close>, so \<open>temp_history\<close> is empty afterwards.
\<close>

definition chosen_inline_query :: "bool \<Rightarrow> string \<Rightarrow> ctx \<Rightarrow> ctx" where
  "chosen_inline_query history_enabled result_id c =
     (let video = temp_history c result_id;
          c1 = c\<lparr>temp_history := Map.empty\<rparr>
      in case video of
           None \<Rightarrow> c1
         | Some v \<Rightarrow>
             if \<not> history_enabled then c1
             else if v \<notin> set (history c1) then c1\<lparr>history := history c1 @ [v]\<rparr>
             else c1)"

section \<open>Sample values\<close>

text \<open>
  Concrete provider answers, messages and collaborators on which the theorems below are
  instantiated. The limit used with them is 20000000 bytes.
\<close>

definition mp4_stream :: "string \<Rightarrow> int \<Rightarrow> nat \<Rightarrow> stream" where
  "mp4_stream u fs r =
     \<lparr> stream.url = u, filesize = fs, resolution = Some r, stype = ''video'',
       is_progressive = True, subtype = ''mp4'', stream.mime_type = ''video/mp4'' \<rparr>"

definition sample_streams :: "stream list" where
  "sample_streams =
     [mp4_stream ''https://cdn.example/720'' 25000000 720,
      mp4_stream ''https://cdn.example/360'' 8000000 360,
      mp4_stream ''https://cdn.example/480'' 15000000 480]"

definition tie_streams :: "stream list" where
  "tie_streams =
     [mp4_stream ''https://cdn.example/720'' 15000000 720,
      mp4_stream ''https://cdn.example/360'' 15000000 360]"



definition sample_youtube :: "stream list \<Rightarrow> youtube" where
  "sample_youtube fs =
     \<lparr> streams = Inr fs, youtube.author = Inr ''uploader'', title = Inr ''a title'',
       youtube.thumbnail_url = Inr ''https://img.example/t.jpg'' \<rparr>"

definition private_youtube :: youtube where
  "private_youtube =
     \<lparr> streams = Inl (PytubeError ''VideoPrivate''), youtube.author = Inr ''uploader'',
       title = Inr ''a title'', youtube.thumbnail_url = Inr ''https://img.example/t.jpg'' \<rparr>"

definition sample_fetch :: "youtube \<Rightarrow> string \<Rightarrow> exn + youtube" where
  "sample_fetch yt u =
     (if u = ''https://youtube.com/watch?v=TCrP1SE2DkY'' then Inr yt
      else Inl (PytubeError ''VideoUnavailable''))"

definition sample_match :: py_match where
  "sample_match =
     \<lparr> matched = ''https://youtu.be/TCrP1SE2DkY'', groupdict = [(''id'', ''TCrP1SE2DkY'')] \<rparr>"

definition sample_video :: "string \<Rightarrow> string \<Rightarrow> video" where
  "sample_video u mq =
     \<lparr> video.author = ''uploader'', caption = ''a title'',
       video.thumbnail_url = ''https://img.example/t.jpg'', vtype = YOUTUBE,
       video.url = u, original_url = ''https://youtube.com/watch?v=TCrP1SE2DkY'',
       max_quality_url = Some mq, video.mime_type = ''video/mp4'', file_input = None \<rparr>"

definition reply_ok :: "video_input \<Rightarrow> string \<Rightarrow> exn + tg_dict option" where
  "reply_ok a cap = Inr (Some [(''file_id'', ''new'')])"


definition sample_note :: "string \<Rightarrow> string" where
  "sample_note u = ''original: '' @ u"

definition sample_error_text :: "string \<Rightarrow> string \<Rightarrow> string \<Rightarrow> string" where
  "sample_error_text cap ou u = ''error: '' @ u"

definition sample_reply_text :: "string \<Rightarrow> exn + unit" where
  "sample_reply_text t = Inr ()"

definition sample_reply_media_group :: "input_media list \<Rightarrow> exn + unit" where
  "sample_reply_media_group ms = Inr ()"

definition sample_parse_links :: "media list \<Rightarrow> string list \<Rightarrow> exn + media list" where
  "sample_parse_links ms ls = Inr ms"

definition sample_env ::
  "(video_input \<Rightarrow> string \<Rightarrow> exn + tg_dict option) \<Rightarrow> media list \<Rightarrow> env" where
  "sample_env rv ms =
     \<lparr> chat = PRIVATE, real_caption = video.caption,
       original_note = sample_note,
       error_text = sample_error_text,
       reply_video = rv, reply_text = sample_reply_text,
       reply_media_group = sample_reply_media_group,
       parse_links = sample_parse_links ms \<rparr>"

definition sample_ctx :: ctx where
  "sample_ctx =
     \<lparr> tg_video_cache =
         [''https://youtube.com/watch?v=TCrP1SE2DkY'' \<mapsto> [(''file_id'', ''old'')]],
       temp_history = Map.empty, history = [], calls = [] \<rparr>"

definition sample_message :: message where
  "sample_message =
     \<lparr> message_text = ''see youtu.be/TCrP1SE2DkY #tag or here'',
       entities =
         [\<lparr> etype = URL, offset = 4, elength = 20 \<rparr>,
          \<lparr> etype = HASHTAG, offset = 25, elength = 4 \<rparr>,
          \<lparr> etype = TEXT_LINK, offset = 33, elength = 4 \<rparr>] \<rparr>"

definition sample_group :: media_group where
  "sample_group =
     \<lparr> input_medias = [\<lparr> im_media = ''https://cdn.example/p1.jpg'', im_caption = None \<rparr>],
       group_caption = Some ''photos'', group_original_url = ''https://provider.example/p'' \<rparr>"

definition sample_medias :: "media list" where
  "sample_medias =
     [OtherMedia ''unknown'',
      Video (sample_video ''https://cdn.example/480'' ''https://cdn.example/720''),
      MediaGroup sample_group,
      Video (sample_video ''https://cdn.example/360'' ''https://cdn.example/360'')]"

text \<open>
  The two \<open>isinstance\<close> tests of the loop in \<open>link_parser\<close> (lines 119 and 126), as one
  predicate: the media is a \<open>Video\<close> or a \<open>MediaGroup\<close>.
\<close>

fun is_deliverable :: "media \<Rightarrow> bool" where
  "is_deliverable (Video v) = True"
| "is_deliverable (MediaGroup g) = True"
| "is_deliverable (OtherMedia x) = False"

section \<open>The selection loop\<close>

lemma stream_loop_mono:
  "stream_loop L xs (m, s) = (m', s') \<Longrightarrow> m \<le> m'"
proof (induction xs arbitrary: m s)
  case Nil
  then show ?case by simp
next
  case (Cons x xs)
  show ?case
  proof (cases "L \<ge> filesize x \<and> filesize x > m")
    case True
    with Cons.prems have "stream_loop L xs (filesize x, x) = (m', s')"
      by (simp add: Let_def)
    from Cons.IH[OF this] True show ?thesis by simp
  next
    case False
    with Cons.prems have "stream_loop L xs (m, s) = (m', s')"
      by (simp add: Let_def)
    from Cons.IH[OF this] show ?thesis .
  qed
qed

text \<open>
  Either the loop leaves its state alone, or it ends on a stream of the list that fits
  the limit and whose size is the recorded maximum.
\<close>

lemma stream_loop_result:
  "stream_loop L xs (m, s) = (m', s') \<Longrightarrow>
     (m' = m \<and> s' = s) \<or> (s' \<in> set xs \<and> filesize s' = m' \<and> m < m' \<and> m' \<le> L)"
proof (induction xs arbitrary: m s)
  case Nil
  then show ?case by simp
next
  case (Cons x xs)
  show ?case
  proof (cases "L \<ge> filesize x \<and> filesize x > m")
    case True
    with Cons.prems have "stream_loop L xs (filesize x, x) = (m', s')"
      by (simp add: Let_def)
    from Cons.IH[OF this] True show ?thesis by auto
  next
    case False
    with Cons.prems have "stream_loop L xs (m, s) = (m', s')"
      by (simp add: Let_def)
    from Cons.IH[OF this] show ?thesis by auto
  qed
qed

lemma stream_loop_upper:
  "stream_loop L xs (m, s) = (m', s') \<Longrightarrow> x \<in> set xs \<Longrightarrow> filesize x \<le> L
     \<Longrightarrow> filesize x \<le> m'"
proof (induction xs arbitrary: m s)
  case Nil
  then show ?case by simp
next
  case (Cons y ys)
  show ?case
  proof (cases "L \<ge> filesize y \<and> filesize y > m")
    case True
    with Cons.prems have eq: "stream_loop L ys (filesize y, y) = (m', s')"
      by (simp add: Let_def)
    from stream_loop_mono[OF eq] Cons.IH[OF eq] Cons.prems(2,3) show ?thesis by auto
  next
    case False
    with Cons.prems have eq: "stream_loop L ys (m, s) = (m', s')"
      by (simp add: Let_def)
    from stream_loop_mono[OF eq] Cons.IH[OF eq] Cons.prems(2,3) False show ?thesis by auto
  qed
qed


text \<open>
  The comparison with \<open>max_fs\<close> is strict, so the stream the loop ends on is the first
  of its size: every fitting stream before it is strictly smaller.
\<close>

lemma stream_loop_first:
  "stream_loop L xs (m, s) = (m', s') \<Longrightarrow> m < m' \<Longrightarrow>
     \<exists>ys zs. xs = ys @ s' # zs \<and> (\<forall>y\<in>set ys. filesize y \<le> L \<longrightarrow> filesize y < m')"
proof (induction xs arbitrary: m s)
  case Nil
  then show ?case by simp
next
  case (Cons x xs)
  show ?case
  proof (cases "L \<ge> filesize x \<and> filesize x > m")
    case True
    with Cons.prems have eq: "stream_loop L xs (filesize x, x) = (m', s')"
      by (simp add: Let_def)
    show ?thesis
    proof (cases "filesize x < m'")
      case True
      from Cons.IH[OF eq True] obtain ys zs where
        "xs = ys @ s' # zs" "\<forall>y\<in>set ys. filesize y \<le> L \<longrightarrow> filesize y < m'" by blast
      with True have "x # xs = (x # ys) @ s' # zs \<and>
          (\<forall>y\<in>set (x # ys). filesize y \<le> L \<longrightarrow> filesize y < m')" by simp
      then show ?thesis by blast
    next
      case False
      with stream_loop_result[OF eq] have "s' = x" by auto
      then have "x # xs = [] @ s' # xs \<and>
          (\<forall>y\<in>set []. filesize y \<le> L \<longrightarrow> filesize y < m')" by simp
      then show ?thesis by blast
    qed
  next
    case False
    with Cons.prems have eq: "stream_loop L xs (m, s) = (m', s')"
      by (simp add: Let_def)
    from Cons.IH[OF eq Cons.prems(2)] obtain ys zs where
      "xs = ys @ s' # zs" "\<forall>y\<in>set ys. filesize y \<le> L \<longrightarrow> filesize y < m'" by blast
    with False Cons.prems(2) have "x # xs = (x # ys) @ s' # zs \<and>
        (\<forall>y\<in>set (x # ys). filesize y \<le> L \<longrightarrow> filesize y < m')" by auto
    then show ?thesis by blast
  qed
qed

section \<open>Candidates and the best stream\<close>

lemma candidates_subset:
  "s \<in> set (candidates fs) \<Longrightarrow> s \<in> set fs \<and> is_progressive s \<and> resolution s \<noteq> None"
  by (auto simp: candidates_def order_by_resolution_def filter_streams_def)

lemma sorted_candidates: "sorted (map resolution_key (candidates fs))"
  by (simp add: candidates_def order_by_resolution_def)

lemma get_highest_resolution_Some:
  assumes "s \<in> set (candidates fs)"
  shows "\<exists>best. get_highest_resolution fs = Some best"
proof -
  from candidates_subset[OF assms]
  have "s \<in> set (order_by_resolution (filter is_progressive fs))"
    by (simp add: order_by_resolution_def)
  then have "order_by_resolution (filter is_progressive fs) \<noteq> []" by auto
  then show ?thesis
    by (auto simp: get_highest_resolution_def split: list.splits)
qed


section \<open>What \<open>_parse\<close> returns\<close>

lemma build_video_Inr:
  "build_video yt ou mq d = Inr [v] \<Longrightarrow>
     video.url v = stream.url d \<and> max_quality_url v = Some mq \<and> original_url v = ou
     \<and> video.mime_type v = stream.mime_type d"
  by (auto simp: build_video_def except_PytubeError_def split: sum.splits if_splits)

lemma parse_Inr:
  assumes "parse YouTube L m = Inr [v]"
  shows "\<exists>yt_id yt fs mq d.
           group m ''id'' = Inr yt_id
         \<and> YouTube (''https://youtube.com/watch?v='' @ yt_id) = Inr yt
         \<and> streams yt = Inr fs
         \<and> select_stream L fs = Inr (mq, d)
         \<and> build_video yt (''https://youtube.com/watch?v='' @ yt_id) mq d = Inr [v]"
  using assms
  by (auto simp: parse_def Let_def split: sum.splits if_splits prod.splits)

section \<open>Quality selection\<close>

text \<open>
  Claim C1. Whenever some candidate stream (a stream the loop of \<open>_parse\<close> visits) has
  a size above 0 and at most the limit, the selection returns, and the stream it picks
  for delivery is a candidate whose size is above 0 and at most the limit and is the
  largest size among all candidates that fit.
\<close>

theorem select_stream_fits_and_maximal:
  assumes "\<exists>s\<in>set (candidates fmt_streams). 0 < filesize s \<and> filesize s \<le> TG_FILE_LIMIT"
  shows "\<exists>mq d. select_stream TG_FILE_LIMIT fmt_streams = Inr (mq, d)
           \<and> d \<in> set (candidates fmt_streams)
           \<and> 0 < filesize d \<and> filesize d \<le> TG_FILE_LIMIT
           \<and> (\<forall>s\<in>set (candidates fmt_streams).
                 0 < filesize s \<and> filesize s \<le> TG_FILE_LIMIT \<longrightarrow> filesize s \<le> filesize d)"
proof -
  from assms obtain e where e: "e \<in> set (candidates fmt_streams)"
    "0 < filesize e" "filesize e \<le> TG_FILE_LIMIT" by blast
  from get_highest_resolution_Some[OF e(1)] obtain best
    where best: "get_highest_resolution fmt_streams = Some best" by blast
  obtain m' d where loop:
    "stream_loop TG_FILE_LIMIT (candidates fmt_streams) (0, best) = (m', d)"
    by (cases "stream_loop TG_FILE_LIMIT (candidates fmt_streams) (0, best)")
  have sel: "select_stream TG_FILE_LIMIT fmt_streams = Inr (stream.url best, d)"
    by (simp add: select_stream_def best loop)
  have up: "\<And>x. x \<in> set (candidates fmt_streams) \<Longrightarrow> filesize x \<le> TG_FILE_LIMIT
              \<Longrightarrow> filesize x \<le> m'"
    using stream_loop_upper[OF loop] by blast
  from up[OF e(1) e(3)] e(2) have pos: "0 < m'" by simp
  with stream_loop_result[OF loop]
  have d: "d \<in> set (candidates fmt_streams)" "filesize d = m'" "m' \<le> TG_FILE_LIMIT"
    by auto
  from sel d pos up show ?thesis by auto
qed

theorem select_stream_fits_and_maximal_witness:
  "(\<exists>s\<in>set (candidates sample_streams). 0 < filesize s \<and> filesize s \<le> 20000000)
   \<and> (\<exists>mq d. select_stream 20000000 sample_streams = Inr (mq, d)
           \<and> d \<in> set (candidates sample_streams)
           \<and> 0 < filesize d \<and> filesize d \<le> 20000000
           \<and> (\<forall>s\<in>set (candidates sample_streams).
                 0 < filesize s \<and> filesize s \<le> 20000000 \<longrightarrow> filesize s \<le> filesize d))"
proof -
  have c: "candidates sample_streams =
     [mp4_stream ''https://cdn.example/360'' 8000000 360,
      mp4_stream ''https://cdn.example/480'' 15000000 480,
      mp4_stream ''https://cdn.example/720'' 25000000 720]"
    by code_simp
  have h: "\<exists>s\<in>set (candidates sample_streams). 0 < filesize s \<and> filesize s \<le> 20000000"
    by (simp add: c mp4_stream_def)
  from h select_stream_fits_and_maximal[OF h] show ?thesis by blast
qed



text \<open>
  Claim C3, as the source has it. The claim says that among fitting streams of equal
  largest size the one of higher resolution is delivered. The loop visits the
  candidates in ascending order of resolution and replaces its choice only on a strictly
  larger size, so it keeps the first of them: at \<open>tie_streams\<close>, where the 360 and the
  720 stream both have 15000000 bytes, the 360 stream is delivered.
\<close>

theorem select_stream_tie_counterexample:
  "select_stream 20000000 tie_streams =
     Inr (''https://cdn.example/720'', mp4_stream ''https://cdn.example/360'' 15000000 360)
   \<and> candidates tie_streams =
       [mp4_stream ''https://cdn.example/360'' 15000000 360,
        mp4_stream ''https://cdn.example/720'' 15000000 720]
   \<and> filesize (mp4_stream ''https://cdn.example/720'' 15000000 720) = 15000000
   \<and> filesize (mp4_stream ''https://cdn.example/360'' 15000000 360) = 15000000
   \<and> resolution (mp4_stream ''https://cdn.example/360'' 15000000 360) = Some 360
   \<and> resolution (mp4_stream ''https://cdn.example/720'' 15000000 720) = Some 720
   \<and> select_stream 20000000 tie_streams \<noteq>
       Inr (''https://cdn.example/720'', mp4_stream ''https://cdn.example/720'' 15000000 720)"
  by code_simp

text \<open>
  Claim C3, amended. When \<open>t\<close> is a candidate of the largest size that fits, the stream
  delivered is a candidate of that same size whose resolution is at most that of \<open>t\<close>:
  among the fitting streams of equal largest size the one of lowest resolution is
  delivered.
\<close>

theorem select_stream_tie_lowest_resolution:
  assumes sel: "select_stream TG_FILE_LIMIT fmt_streams = Inr (mq, d)"
      and t: "t \<in> set (candidates fmt_streams)"
      and fit: "0 < filesize t \<and> filesize t \<le> TG_FILE_LIMIT"
      and mx: "\<forall>s\<in>set (candidates fmt_streams).
                 0 < filesize s \<and> filesize s \<le> TG_FILE_LIMIT \<longrightarrow> filesize s \<le> filesize t"
  shows "d \<in> set (candidates fmt_streams) \<and> filesize d = filesize t
         \<and> (\<exists>rd rt. resolution d = Some rd \<and> resolution t = Some rt \<and> rd \<le> rt)"
proof -
  from sel obtain best where best: "get_highest_resolution fmt_streams = Some best"
    by (auto simp: select_stream_def split: option.splits)
  obtain m' where loop:
    "stream_loop TG_FILE_LIMIT (candidates fmt_streams) (0, best) = (m', d)"
    using sel best
    by (cases "stream_loop TG_FILE_LIMIT (candidates fmt_streams) (0, best)")
       (auto simp: select_stream_def)
  from stream_loop_upper[OF loop t] fit have le: "filesize t \<le> m'" by simp
  with fit have pos: "0 < m'" by simp
  with stream_loop_result[OF loop]
  have d: "d \<in> set (candidates fmt_streams)" "filesize d = m'" "m' \<le> TG_FILE_LIMIT"
    by auto
  from mx d pos le have eq: "filesize d = filesize t" by fastforce
  from stream_loop_first[OF loop pos] obtain ys zs where
    split: "candidates fmt_streams = ys @ d # zs"
    and before: "\<forall>y\<in>set ys. filesize y \<le> TG_FILE_LIMIT \<longrightarrow> filesize y < m'" by blast
  from before fit eq d(2) have "t \<notin> set ys" by auto
  with t split have "t \<in> set (d # zs)" by auto
  moreover from sorted_candidates[of fmt_streams] split
  have "sorted (map resolution_key (d # zs))" by (simp add: sorted_append)
  ultimately have "resolution_key d \<le> resolution_key t" by auto
  moreover from candidates_subset[OF d(1)] candidates_subset[OF t]
  obtain rd rt where "resolution d = Some rd" "resolution t = Some rt" by auto
  ultimately show ?thesis using d(1) eq by (simp add: resolution_key_def)
qed

theorem select_stream_tie_lowest_resolution_witness:
  "select_stream 20000000 tie_streams =
     Inr (''https://cdn.example/720'', mp4_stream ''https://cdn.example/360'' 15000000 360)
   \<and> mp4_stream ''https://cdn.example/720'' 15000000 720 \<in> set (candidates tie_streams)
   \<and> 0 < filesize (mp4_stream ''https://cdn.example/720'' 15000000 720)
   \<and> filesize (mp4_stream ''https://cdn.example/720'' 15000000 720) \<le> 20000000
   \<and> map filesize (candidates tie_streams) = [15000000, 15000000]
   \<and> filesize (mp4_stream ''https://cdn.example/360'' 15000000 360)
       = filesize (mp4_stream ''https://cdn.example/720'' 15000000 720)
   \<and> (\<exists>rd rt. resolution (mp4_stream ''https://cdn.example/360'' 15000000 360) = Some rd
         \<and> resolution (mp4_stream ''https://cdn.example/720'' 15000000 720) = Some rt
         \<and> rd \<le> rt)"
proof -
  let ?lo = "mp4_stream ''https://cdn.example/360'' 15000000 360"
  let ?hi = "mp4_stream ''https://cdn.example/720'' 15000000 720"
  have sel: "select_stream 20000000 tie_streams = Inr (''https://cdn.example/720'', ?lo)"
    by code_simp
  have c: "candidates tie_streams = [?lo, ?hi]" by code_simp
  have t: "?hi \<in> set (candidates tie_streams)" by (simp add: c)
  have fit: "0 < filesize ?hi \<and> filesize ?hi \<le> 20000000" by (simp add: mp4_stream_def)
  have mx: "\<forall>s\<in>set (candidates tie_streams).
         0 < filesize s \<and> filesize s \<le> 20000000 \<longrightarrow> filesize s \<le> filesize ?hi"
    by (simp add: c mp4_stream_def)
  have sizes: "map filesize (candidates tie_streams) = [15000000, 15000000]"
    by (simp add: c mp4_stream_def)
  from select_stream_tie_lowest_resolution[OF sel t fit mx] sel t fit sizes
  show ?thesis by blast
qed




section \<open>The original url\<close>

text \<open>
  Claim C5, as the source has it. The claim says that \<open>original_url\<close> is the link as
  the user wrote it. \<open>_parse\<close> builds the field from the captured id: for the link
  \<open>https://youtu.be/TCrP1SE2DkY\<close> it is \<open>https://youtube.com/watch?v=TCrP1SE2DkY\<close>.
\<close>

theorem parse_original_url_counterexample:
  "parse (sample_fetch (sample_youtube sample_streams)) 20000000 sample_match
     = Inr [sample_video ''https://cdn.example/480'' ''https://cdn.example/720'']
   \<and> matched sample_match = ''https://youtu.be/TCrP1SE2DkY''
   \<and> original_url (sample_video ''https://cdn.example/480'' ''https://cdn.example/720'')
       = ''https://youtube.com/watch?v=TCrP1SE2DkY''
   \<and> original_url (sample_video ''https://cdn.example/480'' ''https://cdn.example/720'')
       \<noteq> matched sample_match"
  by code_simp

text \<open>
  Claim C5, amended. For every match on which \<open>_parse\<close> returns a \<open>Video\<close>, the
  \<open>original_url\<close> of that \<open>Video\<close> is \<open>https://youtube.com/watch?v=\<close> followed by the
  id the match captured, whatever the shape of the link that was matched.
\<close>

theorem parse_original_url_canonical:
  assumes "parse YouTube TG_FILE_LIMIT m = Inr [v]"
  shows "\<exists>yt_id. group m ''id'' = Inr yt_id
           \<and> original_url v = ''https://youtube.com/watch?v='' @ yt_id"
  using parse_Inr[OF assms] build_video_Inr by blast

theorem parse_original_url_canonical_witness:
  "parse (sample_fetch (sample_youtube sample_streams)) 20000000 sample_match
     = Inr [sample_video ''https://cdn.example/480'' ''https://cdn.example/720'']
   \<and> (\<exists>yt_id. group sample_match ''id'' = Inr yt_id
         \<and> original_url (sample_video ''https://cdn.example/480'' ''https://cdn.example/720'')
             = ''https://youtube.com/watch?v='' @ yt_id)"
proof -
  have h: "parse (sample_fetch (sample_youtube sample_streams)) 20000000 sample_match
     = Inr [sample_video ''https://cdn.example/480'' ''https://cdn.example/720'']"
    by code_simp
  from h parse_original_url_canonical[OF h] show ?thesis by blast
qed

section \<open>Provider errors\<close>

text \<open>
  Claim C6, at a private video. The claim says that a provider-side condition gives the
  empty list. Reading \<open>yt.streams\<close> (line 55) is outside the \<open>try\<close> of lines 73 to 90,
  so the \<open>PytubeError\<close> it raises for a private video leaves \<open>_parse\<close> as an exception.
\<close>

theorem parse_private_video_raises:
  "parse (sample_fetch private_youtube) 20000000 sample_match
     = Inl (PytubeError ''VideoPrivate'')
   \<and> parse (sample_fetch private_youtube) 20000000 sample_match \<noteq> Inr []"
  by code_simp

section \<open>The cache of delivered videos\<close>



section \<open>The history\<close>

text \<open>
  Claim C8. \<open>chosen_inline_query\<close> appends the chosen video to the history only when no
  equal video is in it: a history without repetition stays without repetition, and
  choosing the same video twice (with the history enabled, the video being offered again
  under a new result id in between) adds it once, so a history that was empty has length
  1 afterwards.
\<close>

theorem chosen_inline_query_no_duplicates:
  "(distinct (history c) \<longrightarrow> distinct (history (chosen_inline_query en rid c)))
   \<and> (temp_history c r1 = Some v \<longrightarrow>
        history (chosen_inline_query True r2
                  ((chosen_inline_query True r1 c)\<lparr>temp_history := [r2 \<mapsto> v]\<rparr>))
          = (if v \<in> set (history c) then history c else history c @ [v]))"
proof
  show "distinct (history c) \<longrightarrow> distinct (history (chosen_inline_query en rid c))"
  proof (cases "temp_history c rid")
    case None
    then show ?thesis by (simp add: chosen_inline_query_def Let_def)
  next
    case (Some w)
    then show ?thesis by (simp add: chosen_inline_query_def Let_def)
  qed
next
  show "temp_history c r1 = Some v \<longrightarrow>
        history (chosen_inline_query True r2
                  ((chosen_inline_query True r1 c)\<lparr>temp_history := [r2 \<mapsto> v]\<rparr>))
          = (if v \<in> set (history c) then history c else history c @ [v])"
  proof
    assume offered: "temp_history c r1 = Some v"
    then have first: "history (chosen_inline_query True r1 c)
                        = (if v \<in> set (history c) then history c else history c @ [v])"
      by (simp add: chosen_inline_query_def Let_def)
    then have "v \<in> set (history (chosen_inline_query True r1 c))" by simp
    then have "history (chosen_inline_query True r2
                  ((chosen_inline_query True r1 c)\<lparr>temp_history := [r2 \<mapsto> v]\<rparr>))
               = history (chosen_inline_query True r1 c)"
      by (simp add: chosen_inline_query_def Let_def)
    with first show "history (chosen_inline_query True r2
                  ((chosen_inline_query True r1 c)\<lparr>temp_history := [r2 \<mapsto> v]\<rparr>))
          = (if v \<in> set (history c) then history c else history c @ [v])"
      by simp
  qed
qed

theorem chosen_inline_query_no_duplicates_witness:
  "distinct (history (sample_ctx\<lparr>temp_history := [''r1'' \<mapsto> sample_video ''u'' ''u'']\<rparr>))
   \<and> distinct (history (chosen_inline_query True ''r1''
         (sample_ctx\<lparr>temp_history := [''r1'' \<mapsto> sample_video ''u'' ''u'']\<rparr>)))
   \<and> temp_history (sample_ctx\<lparr>temp_history := [''r1'' \<mapsto> sample_video ''u'' ''u'']\<rparr>) ''r1''
        = Some (sample_video ''u'' ''u'')
   \<and> history (chosen_inline_query True ''r2''
         ((chosen_inline_query True ''r1''
            (sample_ctx\<lparr>temp_history := [''r1'' \<mapsto> sample_video ''u'' ''u'']\<rparr>))
          \<lparr>temp_history := [''r2'' \<mapsto> sample_video ''u'' ''u'']\<rparr>))
       = [sample_video ''u'' ''u'']
   \<and> length (history (chosen_inline_query True ''r2''
         ((chosen_inline_query True ''r1''
            (sample_ctx\<lparr>temp_history := [''r1'' \<mapsto> sample_video ''u'' ''u'']\<rparr>))
          \<lparr>temp_history := [''r2'' \<mapsto> sample_video ''u'' ''u'']\<rparr>))) = 1"
proof -
  let ?c = "sample_ctx\<lparr>temp_history := [''r1'' \<mapsto> sample_video ''u'' ''u'']\<rparr>"
  have h: "history ?c = []" by (simp add: sample_ctx_def)
  have t: "temp_history ?c ''r1'' = Some (sample_video ''u'' ''u'')" by simp
  from chosen_inline_query_no_duplicates
         [of ?c True "''r1''" "''r1''" "sample_video ''u'' ''u''" "''r2''"] h t
  show ?thesis by simp
qed

section \<open>Links and dispatch\<close>





lemma media_loop_skip:
  "\<forall>x\<in>set pre. \<not> is_deliverable x \<Longrightarrow> media_loop e c (pre @ rest) = media_loop e c rest"
proof (induction pre)
  case Nil
  then show ?case by simp
next
  case (Cons x pre)
  then show ?case by (cases x) auto
qed



text \<open>
  Claim C10. When \<open>Parser.parse\<close> returns a list whose first \<open>Video\<close> or \<open>MediaGroup\<close>
  is \<open>first\<close>, \<open>link_parser\<close> does what processing \<open>first\<close> alone does and returns its
  result: nothing of the media after \<open>first\<close> appears in the outcome, whatever they are.
\<close>

theorem link_parser_delivers_first_only:
  assumes "parse_links e (message_links m) = Inr (pre @ first # rest)"
      and "\<forall>x\<in>set pre. \<not> is_deliverable x"
  shows "(\<forall>v. first = Video v \<longrightarrow>
            link_parser e c m =
              process_video e (c\<lparr>calls := calls c @ [ParseCall (message_links m)]\<rparr>) v)
       \<and> (\<forall>g. first = MediaGroup g \<longrightarrow>
            link_parser e c m =
              process_media_group e (c\<lparr>calls := calls c @ [ParseCall (message_links m)]\<rparr>) g)"
  using media_loop_skip[OF assms(2)] assms(1)
  by (simp add: link_parser_def Let_def)

theorem link_parser_delivers_first_only_witness:
  "parse_links (sample_env reply_ok sample_medias) (message_links (Some sample_message))
     = Inr ([OtherMedia ''unknown'']
            @ Video (sample_video ''https://cdn.example/480'' ''https://cdn.example/720'')
            # [MediaGroup sample_group,
               Video (sample_video ''https://cdn.example/360'' ''https://cdn.example/360'')])
   \<and> filter is_deliverable [OtherMedia ''unknown''] = []
   \<and> link_parser (sample_env reply_ok sample_medias) sample_ctx (Some sample_message) =
       process_video (sample_env reply_ok sample_medias)
         (sample_ctx\<lparr>calls := calls sample_ctx
                        @ [ParseCall (message_links (Some sample_message))]\<rparr>)
         (sample_video ''https://cdn.example/480'' ''https://cdn.example/720'')"
proof -
  have h1: "parse_links (sample_env reply_ok sample_medias)
              (message_links (Some sample_message))
     = Inr ([OtherMedia ''unknown'']
            @ Video (sample_video ''https://cdn.example/480'' ''https://cdn.example/720'')
            # [MediaGroup sample_group,
               Video (sample_video ''https://cdn.example/360'' ''https://cdn.example/360'')])"
    by (simp add: sample_env_def sample_parse_links_def sample_medias_def)
  have h2: "\<forall>x\<in>set [OtherMedia ''unknown'']. \<not> is_deliverable x" by simp
  from link_parser_delivers_first_only[OF h1 h2, of sample_ctx] h1 h2
  show ?thesis by simp
qed

end
